theory Spec2Isabelle
  imports Main "HOL-Library.Word" "HOL-Library.Sublist"
begin

unbundle bit_operations_syntax

section \<open>The agent's communication channel (channel.go)\<close>

text \<open>
  A shallow embedding of \<^verbatim>\<open>channel.go\<close>: the capability probe
  \<^verbatim>\<open>isAFVSockSupported\<close>, the device-path resolver \<^verbatim>\<open>findVirtualSerialPath\<close>,
  the discovery loop \<^verbatim>\<open>newChannel\<close>, and the serial channel's \<^verbatim>\<open>wait\<close> and
  \<^verbatim>\<open>teardown\<close>. Every call into the operating system is an input of the model: the
  functions take what the kernel and the filesystem answer and return what the Go code
  returns.
\<close>

subsection \<open>Errors\<close>

text \<open>
  A Go \<^verbatim>\<open>error\<close> is \<^verbatim>\<open>nil\<close> or a value; a function returning \<^verbatim>\<open>error\<close> is modelled
  with \<open>go_error option\<close>, \<open>None\<close> being \<^verbatim>\<open>nil\<close>. The package \<^verbatim>\<open>os\<close> reports a failed
  file operation as a \<^verbatim>\<open>*PathError\<close> or a \<^verbatim>\<open>*SyscallError\<close> around an errno, the package
  \<^verbatim>\<open>unix\<close> as the bare errno.
\<close>

type_synonym errno = nat

definition ENOENT :: errno where "ENOENT = 2"
definition EACCES :: errno where "EACCES = 13"
definition EMFILE :: errno where "EMFILE = 24"
definition EAFNOSUPPORT :: errno where "EAFNOSUPPORT = 97"

datatype os_error =
    PathError string string errno
  | SyscallError string errno

fun os_IsNotExist :: "os_error \<Rightarrow> bool" where
  "os_IsNotExist (PathError _ _ e) = (e = ENOENT)"
| "os_IsNotExist (SyscallError _ e) = (e = ENOENT)"

datatype grpc_code = NotFound | OtherCode nat

datatype go_error =
    Errno errno
  | OsError os_error
  | ErrorString string
  | GrpcStatus grpc_code string

subsection \<open>Package variables and constants\<close>

text \<open>
  \<^verbatim>\<open>channelExistMaxTries\<close>, \<^verbatim>\<open>channelExistWaitTime\<close> and \<^verbatim>\<open>channelCloseTimeout\<close> are
  package variables of \<^verbatim>\<open>channel.go\<close> (a Go \<^verbatim>\<open>int\<close> and two \<^verbatim>\<open>time.Duration\<close>s, in
  nanoseconds). The four path and name constants are declared in another file of the
  package, so they are fields as well and every result holds for any value of them.
\<close>

record package_vars =
  channelExistMaxTries :: int
  channelExistWaitTime :: int
  channelCloseTimeout :: int
  vSockDevPath :: string
  virtIOPath :: string
  devRootPath :: string
  serialChannelName :: string

definition Millisecond :: int where "Millisecond = 1000000"
definition Second :: int where "Second = 1000 * Millisecond"

definition channel_go_vars :: "string \<Rightarrow> string \<Rightarrow> string \<Rightarrow> string \<Rightarrow> package_vars" where
  "channel_go_vars vsock virtio dev name =
     \<lparr> channelExistMaxTries = 200,
       channelExistWaitTime = 50 * Millisecond,
       channelCloseTimeout = 5 * Second,
       vSockDevPath = vsock, virtIOPath = virtio, devRootPath = dev,
       serialChannelName = name \<rparr>"

subsection \<open>The capability probe\<close>

text \<open>
  \<^verbatim>\<open>unix.Socket(AF_VSOCK, SOCK_STREAM, 0)\<close> answers an errno or a descriptor, and
  \<^verbatim>\<open>unix.Close\<close> of that descriptor answers \<^verbatim>\<open>nil\<close> or an errno. The result is Go's
  pair \<^verbatim>\<open>(bool, error)\<close>.
\<close>

record vsock_kernel =
  unix_Socket :: "errno + int"
  unix_Close :: "int \<Rightarrow> errno option"

definition isAFVSockSupported :: "vsock_kernel \<Rightarrow> bool \<times> go_error option" where
  "isAFVSockSupported k =
     (case unix_Socket k of
        Inl err \<Rightarrow> if err = EAFNOSUPPORT then (False, None) else (False, Some (Errno err))
      | Inr fd \<Rightarrow>
          (case unix_Close k fd of
             Some err \<Rightarrow> (True, Some (Errno err))
           | None \<Rightarrow> (True, None)))"

subsection \<open>The device-path resolver\<close>

text \<open>
  The filesystem as the package sees it: \<^verbatim>\<open>os.Stat\<close> of a path (only its error is
  used), opening a directory, listing it, reading a file.
\<close>

record filesystem =
  os_Stat :: "string \<Rightarrow> os_error option"
  os_Open :: "string \<Rightarrow> os_error option"
  Readdirnames :: "string \<Rightarrow> os_error + string list"
  ReadFile :: "string \<Rightarrow> os_error + string"

text \<open>
  \<^verbatim>\<open>filepath.Join\<close> drops empty elements and joins the rest with the separator. Its
  final \<^verbatim>\<open>Clean\<close> is left out: it changes nothing on a clean root joined with the names
  that \<^verbatim>\<open>Readdirnames\<close> returns (no separator inside, never \<^verbatim>\<open>.\<close> or \<^verbatim>\<open>..\<close>).
\<close>

fun join_sep :: "string list \<Rightarrow> string" where
  "join_sep [] = []"
| "join_sep [e] = e"
| "join_sep (e # es) = e @ ''/'' @ join_sep es"

definition filepath_Join :: "string list \<Rightarrow> string" where
  "filepath_Join elem = join_sep (filter (\<lambda>e. e \<noteq> []) elem)"

definition strings_Contains :: "string \<Rightarrow> string \<Rightarrow> bool" where
  "strings_Contains s substr = sublist substr s"

text \<open>
  The loop over the listed ports: \<open>Some r\<close> when the loop body returns \<open>r\<close>, \<open>None\<close>
  when the range is exhausted.
\<close>

fun ports_loop :: "package_vars \<Rightarrow> filesystem \<Rightarrow> string \<Rightarrow> string list \<Rightarrow> (go_error + string) option" where
  "ports_loop v fs serialName [] = None"
| "ports_loop v fs serialName (port # ports) =
     (case ReadFile fs (filepath_Join [virtIOPath v, port, ''name'']) of
        Inl err \<Rightarrow>
          if os_IsNotExist err then ports_loop v fs serialName ports
          else Some (Inl (OsError err))
      | Inr content \<Rightarrow>
          if strings_Contains content serialName
          then Some (Inr (filepath_Join [devRootPath v, port]))
          else ports_loop v fs serialName ports)"

definition findVirtualSerialPath :: "package_vars \<Rightarrow> filesystem \<Rightarrow> string \<Rightarrow> go_error + string" where
  "findVirtualSerialPath v fs serialName =
     (case os_Open fs (virtIOPath v) of
        Some err \<Rightarrow> Inl (OsError err)
      | None \<Rightarrow>
          (case Readdirnames fs (virtIOPath v) of
             Inl err \<Rightarrow> Inl (OsError err)
           | Inr ports \<Rightarrow>
               (case ports_loop v fs serialName ports of
                  Some r \<Rightarrow> r
                | None \<Rightarrow>
                    Inl (GrpcStatus NotFound (''Could not find virtio port '' @ serialName)))))"

subsection \<open>Channels\<close>

text \<open>
  An \<^verbatim>\<open>*os.File\<close> is its name, its descriptor and whether it has been closed; a \<^verbatim>\<open>nil\<close>
  pointer is \<open>None\<close>. The close channel of the multiplexing session is modelled by the
  moment it gets closed, counted in nanoseconds from the start of \<^verbatim>\<open>teardown\<close>, if it
  ever does; a \<^verbatim>\<open>nil\<close> channel is \<open>None\<close>.
\<close>

record os_file =
  file_name :: string
  sysfd :: "64 word"
  is_closed :: bool

datatype close_chan = NeverCloses | ClosesAfter int

record serialChannel =
  serialPath :: string
  serialConn :: "os_file option"
  waitCh :: "close_chan option"

datatype channel = VSockChannel | SerialChannel serialChannel

subsection \<open>Discovery: \<^verbatim>\<open>newChannel\<close>\<close>

text \<open>
  The system at one iteration of the loop: the filesystem and the kernel's answer to the
  probe. \<^verbatim>\<open>newChannel\<close> reads the system once per iteration, so its input is the
  system at iteration \<open>i\<close>, for every \<open>i\<close>. \<^verbatim>\<open>isAFVSockSupportedFunc\<close> is the package
  variable initialised to \<^verbatim>\<open>isAFVSockSupported\<close>.
\<close>

record system =
  files :: filesystem
  vsock :: vsock_kernel

text \<open>
  The local variables that outlive an iteration, and the durations passed to
  \<^verbatim>\<open>time.Sleep\<close> so far, oldest first.
\<close>

record discovery_vars =
  serialErr :: "go_error option"
  vsockErr :: "go_error option"
  sleeps :: "int list"

text \<open>
  The block under \<^verbatim>\<open>// check vsock path\<close>: whether it returns the vsock channel, and the
  variables after it. \<^verbatim>\<open>vsockErr\<close> is assigned only when \<^verbatim>\<open>os.Stat\<close> succeeds.
\<close>

definition check_vsock_path :: "package_vars \<Rightarrow> system \<Rightarrow> discovery_vars \<Rightarrow> bool \<times> discovery_vars" where
  "check_vsock_path v sys s =
     (case os_Stat (files sys) (vSockDevPath v) of
        Some err \<Rightarrow> (False, s)
      | None \<Rightarrow>
          (case isAFVSockSupported (vsock sys) of
             (vSockSupported, err) \<Rightarrow>
               (vSockSupported \<and> err = None, s\<lparr>vsockErr := err\<rparr>)))"

text \<open>
  The loop \<^verbatim>\<open>for i := 0; i < channelExistMaxTries; i++\<close>: \<open>Some c\<close> when the body
  returns the channel \<open>c\<close>, \<open>None\<close> when the loop ends.
\<close>

function channel_loop :: "package_vars \<Rightarrow> (int \<Rightarrow> system) \<Rightarrow> int \<Rightarrow> discovery_vars \<Rightarrow> channel option \<times> discovery_vars" where
  "channel_loop v w i s =
     (if i < channelExistMaxTries v then
        (case check_vsock_path v (w i) s of
           (True, s1) \<Rightarrow> (Some VSockChannel, s1)
         | (False, s1) \<Rightarrow>
             (case findVirtualSerialPath v (files (w i)) (serialChannelName v) of
                Inr path \<Rightarrow>
                  (Some (SerialChannel \<lparr>serialPath = path, serialConn = None, waitCh = None\<rparr>),
                   s1\<lparr>serialErr := None\<rparr>)
              | Inl err \<Rightarrow>
                  channel_loop v w (i + 1)
                    (s1\<lparr>serialErr := Some err,
                        sleeps := sleeps s1 @ [channelExistWaitTime v]\<rparr>)))
      else (None, s))"
  by pat_completeness auto
termination
  by (relation "measure (\<lambda>(v, w, i, s). nat (channelExistMaxTries v - i))") auto

declare channel_loop.simps [simp del]

datatype log_entry = LogError go_error string

record discovery =
  returned :: "go_error + channel"
  logged :: "log_entry list"
  slept :: "int list"

definition log_if :: "go_error option \<Rightarrow> string \<Rightarrow> log_entry list" where
  "log_if err msg = (case err of Some e \<Rightarrow> [LogError e msg] | None \<Rightarrow> [])"

definition newChannel :: "package_vars \<Rightarrow> (int \<Rightarrow> system) \<Rightarrow> discovery" where
  "newChannel v w =
     (case channel_loop v w 0 \<lparr>serialErr = None, vsockErr = None, sleeps = []\<rparr> of
        (Some c, s) \<Rightarrow> \<lparr>returned = Inr c, logged = [], slept = sleeps s\<rparr>
      | (None, s) \<Rightarrow>
          \<lparr>returned = Inl (ErrorString ''Neither vsocks nor serial ports were found''),
           logged = log_if (serialErr s) ''Serial port not found''
                    @ log_if (vsockErr s) ''VSock not found'',
           slept = sleeps s\<rparr>)"

subsection \<open>The serial channel: \<^verbatim>\<open>setup\<close>, \<^verbatim>\<open>wait\<close>, \<^verbatim>\<open>listen\<close>, \<^verbatim>\<open>teardown\<close>\<close>

text \<open>
  \<^verbatim>\<open>setup\<close> opens the device; \<open>opened\<close> is what \<^verbatim>\<open>os.OpenFile\<close> answers for the path.
\<close>

definition serialChannel_setup :: "(string \<Rightarrow> os_error + 64 word) \<Rightarrow> serialChannel \<Rightarrow> go_error option \<times> serialChannel" where
  "serialChannel_setup opened c =
     (case opened (serialPath c) of
        Inl err \<Rightarrow> (Some (OsError err), c)
      | Inr d \<Rightarrow>
          (None, c\<lparr>serialConn := Some \<lparr>file_name = serialPath c, sysfd = d, is_closed = False\<rparr>\<rparr>))"

text \<open>
  \<^verbatim>\<open>(*os.File).Fd\<close> is all ones for a \<^verbatim>\<open>nil\<close> or a closed file. The event bits are those
  of \<^verbatim>\<open>golang.org/x/sys/unix\<close> on Linux.
\<close>

definition File_Fd :: "os_file option \<Rightarrow> 64 word" where
  "File_Fd f = (case f of None \<Rightarrow> - 1 | Some file \<Rightarrow> if is_closed file then - 1 else sysfd file)"

definition EPOLLOUT :: "32 word" where "EPOLLOUT = 0x4"
definition EPOLLERR :: "32 word" where "EPOLLERR = 0x8"
definition EPOLLHUP :: "32 word" where "EPOLLHUP = 0x10"

record EpollEvent =
  Events :: "32 word"
  Fd :: "32 word"

text \<open>
  What the kernel answers during \<^verbatim>\<open>wait\<close>: to \<^verbatim>\<open>EpollCreate1\<close>, to the \<^verbatim>\<open>EpollCtl\<close> that
  registers the descriptor, and to the successive calls of \<^verbatim>\<open>EpollWait\<close>, each an errno or
  the events delivered (the buffer of \<^verbatim>\<open>wait\<close> holds one event, so the kernel delivers
  at most one per call; the loop is modelled for any number). \<^verbatim>\<open>EpollWait\<close> is called
  without a timeout: when the answers are used up, the call blocks for ever and \<^verbatim>\<open>wait\<close>
  does not return. The deferred \<^verbatim>\<open>unix.Close\<close> and \<^verbatim>\<open>EpollCtl\<close> discard their results and
  are left out.
\<close>

record epoll_kernel =
  EpollCreate1 :: "errno + int"
  EpollCtl_ADD :: "errno option"
  EpollWait :: "(errno + EpollEvent list) list"

datatype 'a run = Blocks | Returns 'a

text \<open>
  The inner loop over the delivered events: \<open>Some r\<close> when \<^verbatim>\<open>wait\<close> returns \<open>r\<close> from
  it, \<open>None\<close> when it ends. \<^verbatim>\<open>int32(fd)\<close> keeps the low 32 bits of the descriptor.
\<close>

fun events_loop :: "64 word \<Rightarrow> EpollEvent list \<Rightarrow> go_error option option" where
  "events_loop d [] = None"
| "events_loop d (ev # evs) =
     (if Fd ev = ucast d then
        if Events ev AND EPOLLOUT \<noteq> 0 then Some None
        else if Events ev AND EPOLLERR \<noteq> 0 then Some (Some (ErrorString ''serial port IO failure''))
        else if Events ev AND EPOLLHUP \<noteq> 0 then events_loop d evs
        else events_loop d evs
      else events_loop d evs)"

fun wait_loop :: "64 word \<Rightarrow> (errno + EpollEvent list) list \<Rightarrow> go_error option run" where
  "wait_loop d [] = Blocks"
| "wait_loop d (Inl err # answers) = Returns (Some (Errno err))"
| "wait_loop d (Inr events # answers) =
     (case events_loop d events of
        Some r \<Rightarrow> Returns r
      | None \<Rightarrow> wait_loop d answers)"

definition serialChannel_wait :: "epoll_kernel \<Rightarrow> serialChannel \<Rightarrow> go_error option run" where
  "serialChannel_wait k c =
     (let d = File_Fd (serialConn c) in
      if d = 0 then Returns (Some (ErrorString ''serial port IO closed''))
      else
        (case EpollCreate1 k of
           Inl err \<Rightarrow> Returns (Some (Errno err))
         | Inr epfd \<Rightarrow>
             (case EpollCtl_ADD k of
                Some err \<Rightarrow> Returns (Some (Errno err))
              | None \<Rightarrow> wait_loop d (EpollWait k))))"

text \<open>
  \<^verbatim>\<open>listen\<close> keeps the close channel of the session that \<^verbatim>\<open>yamux.Server\<close> answers.
\<close>

definition serialChannel_listen :: "go_error + close_chan \<Rightarrow> serialChannel \<Rightarrow> go_error option \<times> serialChannel" where
  "serialChannel_listen server c =
     (case server of
        Inl err \<Rightarrow> (Some err, c)
      | Inr session \<Rightarrow> (None, c\<lparr>waitCh := Some session\<rparr>))"

text \<open>
  The \<^verbatim>\<open>select\<close> of \<^verbatim>\<open>teardown\<close> between the close channel and a timer of duration
  \<open>timeout\<close>: the case taken and the time spent. When both are ready at the same moment
  Go takes either; \<open>tie\<close> is the case taken then.
\<close>

datatype select_case = Notified | TimedOut

definition select_close :: "select_case \<Rightarrow> int \<Rightarrow> close_chan \<Rightarrow> select_case \<times> int" where
  "select_close tie timeout ch =
     (case ch of
        NeverCloses \<Rightarrow> (TimedOut, max 0 timeout)
      | ClosesAfter t \<Rightarrow>
          if max 0 t < max 0 timeout then (Notified, max 0 t)
          else if max 0 timeout < max 0 t then (TimedOut, max 0 timeout)
          else (tie, max 0 t))"

text \<open>
  \<^verbatim>\<open>(*os.File).Close\<close>: an error on a \<^verbatim>\<open>nil\<close> or an already closed file; otherwise the
  descriptor is released and the error of the system call, if any, is returned.
\<close>

definition File_Close :: "errno option \<Rightarrow> os_file option \<Rightarrow> go_error option \<times> os_file option" where
  "File_Close closing f =
     (case f of
        None \<Rightarrow> (Some (ErrorString ''invalid argument''), None)
      | Some file \<Rightarrow>
          if is_closed file then (Some (ErrorString ''file already closed''), Some file)
          else (map_option (\<lambda>e. OsError (PathError ''close'' (file_name file) e)) closing,
                Some (file\<lparr>is_closed := True\<rparr>)))"

record teardown_env =
  select_tie :: select_case
  close_answer :: "errno option"

record teardown_result =
  teardown_err :: "go_error option"
  teardown_chan :: serialChannel
  teardown_time :: int

definition serialChannel_teardown :: "package_vars \<Rightarrow> teardown_env \<Rightarrow> serialChannel \<Rightarrow> teardown_result" where
  "serialChannel_teardown v env c =
     (let closing = (\<lambda>t. case File_Close (close_answer env) (serialConn c) of
                           (err, f) \<Rightarrow> \<lparr>teardown_err = err,
                                        teardown_chan = c\<lparr>serialConn := f\<rparr>,
                                        teardown_time = t\<rparr>)
      in case waitCh c of
           None \<Rightarrow> closing 0
         | Some ch \<Rightarrow>
             (case select_close (select_tie env) (channelCloseTimeout v) ch of
                (Notified, t) \<Rightarrow> closing t
              | (TimedOut, t) \<Rightarrow>
                  \<lparr>teardown_err = Some (ErrorString ''timeout waiting for yamux channel to close''),
                   teardown_chan = c,
                   teardown_time = t\<rparr>))"

section \<open>Notions used in the statements\<close>

text \<open>The descriptor file of a port, as the resolver builds its path.\<close>

abbreviation name_file :: "package_vars \<Rightarrow> string \<Rightarrow> string" where
  "name_file v port \<equiv> filepath_Join [virtIOPath v, port, ''name'']"

text \<open>
  A port that the resolver passes over: its descriptor file does not exist, or it is read
  and its content does not contain the name.
\<close>

definition skipped :: "package_vars \<Rightarrow> filesystem \<Rightarrow> string \<Rightarrow> string \<Rightarrow> bool" where
  "skipped v fs serialName port =
     (case ReadFile fs (name_file v port) of
        Inl err \<Rightarrow> os_IsNotExist err
      | Inr content \<Rightarrow> \<not> strings_Contains content serialName)"

text \<open>
  An iteration of the discovery loop in a system: the vsock channel is usable when the
  device path exists and the probe answers \<open>true\<close> without an error; the serial port is
  missing when the resolver fails; the attempt fails when neither transport is found.
\<close>

definition vsock_usable :: "package_vars \<Rightarrow> system \<Rightarrow> bool" where
  "vsock_usable v sys \<longleftrightarrow>
     os_Stat (files sys) (vSockDevPath v) = None \<and> isAFVSockSupported (vsock sys) = (True, None)"

definition serial_missing :: "package_vars \<Rightarrow> system \<Rightarrow> bool" where
  "serial_missing v sys \<longleftrightarrow> isl (findVirtualSerialPath v (files sys) (serialChannelName v))"

definition attempt_fails :: "package_vars \<Rightarrow> system \<Rightarrow> bool" where
  "attempt_fails v sys \<longleftrightarrow> \<not> vsock_usable v sys \<and> serial_missing v sys"

text \<open>
  An event that reports the hangup and neither the writable nor the error condition.
\<close>

definition hangup_only :: "EpollEvent \<Rightarrow> bool" where
  "hangup_only ev \<longleftrightarrow>
     Events ev AND EPOLLOUT = 0 \<and> Events ev AND EPOLLERR = 0 \<and> Events ev AND EPOLLHUP \<noteq> 0"

section \<open>Example systems\<close>

text \<open>
  The package variables as \<^verbatim>\<open>channel.go\<close> initialises them, with the paths of a Linux
  guest and the channel name \<open>foo\<close>.
\<close>

definition sysfs_vars :: package_vars where
  "sysfs_vars = channel_go_vars ''/dev/vsock'' ''/sys/class/virtio-ports'' ''/dev'' ''foo''"

text \<open>
  A virtio-ports directory with the given listing: port \<open>A\<close> is named \<open>name=foo\<close>,
  \<open>C\<close> is named \<open>xxxfooyyy\<close>, \<open>D\<close> is named \<open>bar\<close>, the descriptor of \<open>E\<close> cannot be
  read, and every other port, \<open>B\<close> among them, has no descriptor file. There is no vsock
  device.
\<close>

definition ports_fs :: "string list \<Rightarrow> filesystem" where
  "ports_fs listing =
     \<lparr> os_Stat = (\<lambda>p. Some (PathError ''stat'' p ENOENT)),
       os_Open = (\<lambda>p. if p = ''/sys/class/virtio-ports'' then None
                       else Some (PathError ''open'' p ENOENT)),
       Readdirnames = (\<lambda>p. Inr listing),
       ReadFile = (\<lambda>p.
         if p = ''/sys/class/virtio-ports/A/name'' then Inr ''name=foo''
         else if p = ''/sys/class/virtio-ports/C/name'' then Inr ''xxxfooyyy''
         else if p = ''/sys/class/virtio-ports/D/name'' then Inr ''bar''
         else if p = ''/sys/class/virtio-ports/E/name'' then Inl (PathError ''open'' p EACCES)
         else Inl (PathError ''open'' p ENOENT)) \<rparr>"

text \<open>The same without the root directory, and with a root that cannot be listed.\<close>

definition no_root_fs :: filesystem where
  "no_root_fs = (ports_fs [])\<lparr>os_Open := \<lambda>p. Some (PathError ''open'' p ENOENT)\<rparr>"

definition unlisted_fs :: filesystem where
  "unlisted_fs = (ports_fs [])\<lparr>Readdirnames := \<lambda>p. Inl (SyscallError ''readdirent'' EACCES)\<rparr>"

text \<open>
  Kernels for the probe: without the vsock address family, out of descriptors, and one
  that creates the socket and fails to close it.
\<close>

definition kernel_without_vsock :: vsock_kernel where
  "kernel_without_vsock = \<lparr>unix_Socket = Inl EAFNOSUPPORT, unix_Close = (\<lambda>d. None)\<rparr>"

definition kernel_out_of_files :: vsock_kernel where
  "kernel_out_of_files = \<lparr>unix_Socket = Inl EMFILE, unix_Close = (\<lambda>d. None)\<rparr>"

definition kernel_close_fails :: vsock_kernel where
  "kernel_close_fails = \<lparr>unix_Socket = Inr 7, unix_Close = (\<lambda>d. Some 5)\<rparr>"

text \<open>
  Systems for the discovery loop: a kernel with vsock support, a filesystem with the vsock
  device, and the combinations used below.
\<close>

definition kernel_with_vsock :: vsock_kernel where
  "kernel_with_vsock = \<lparr>unix_Socket = Inr 7, unix_Close = (\<lambda>d. None)\<rparr>"

definition with_vsock_device :: "filesystem \<Rightarrow> filesystem" where
  "with_vsock_device fs =
     fs\<lparr>os_Stat := \<lambda>p. if p = ''/dev/vsock'' then None else Some (PathError ''stat'' p ENOENT)\<rparr>"

definition dead_system :: system where
  "dead_system = \<lparr>files = ports_fs [''B'', ''D''], vsock = kernel_without_vsock\<rparr>"

definition serial_system :: system where
  "serial_system = \<lparr>files = ports_fs [''B'', ''A''], vsock = kernel_without_vsock\<rparr>"

definition vsock_system :: system where
  "vsock_system = \<lparr>files = with_vsock_device (ports_fs [''B'', ''A'']), vsock = kernel_with_vsock\<rparr>"

definition close_fails_system :: system where
  "close_fails_system =
     \<lparr>files = with_vsock_device (ports_fs [''B'', ''A'']), vsock = kernel_close_fails\<rparr>"

definition no_root_system :: system where
  "no_root_system = \<lparr>files = no_root_fs, vsock = kernel_without_vsock\<rparr>"

definition out_of_files_system :: system where
  "out_of_files_system = \<lparr>files = with_vsock_device unlisted_fs, vsock = kernel_out_of_files\<rparr>"

text \<open>
  Two histories: the serial port is there from the start and the vsock device from the
  second iteration on; nothing is there for two iterations and then both are.
\<close>

definition serial_then_vsock :: "int \<Rightarrow> system" where
  "serial_then_vsock i = (if i = 0 then serial_system else vsock_system)"

definition late_vsock :: "int \<Rightarrow> system" where
  "late_vsock i = (if i < 2 then dead_system else vsock_system)"

text \<open>
  A serial channel after \<^verbatim>\<open>setup\<close>, the same after \<^verbatim>\<open>listen\<close> with a session that is
  never closed, the events of its descriptor, a kernel that delivers given answers to
  \<^verbatim>\<open>wait\<close>, and one where closing a file succeeds.
\<close>

definition opened_channel :: serialChannel where
  "opened_channel =
     \<lparr>serialPath = ''/dev/A'',
      serialConn = Some \<lparr>file_name = ''/dev/A'', sysfd = 5, is_closed = False\<rparr>,
      waitCh = None\<rparr>"

definition serving_channel :: serialChannel where
  "serving_channel = opened_channel\<lparr>waitCh := Some NeverCloses\<rparr>"

definition hangup_event :: EpollEvent where
  "hangup_event = \<lparr>Events = EPOLLHUP, Fd = 5\<rparr>"

definition writable_event :: EpollEvent where
  "writable_event = \<lparr>Events = EPOLLOUT, Fd = 5\<rparr>"

definition error_event :: EpollEvent where
  "error_event = \<lparr>Events = EPOLLERR OR EPOLLHUP, Fd = 5\<rparr>"

definition writable_error_event :: EpollEvent where
  "writable_error_event = \<lparr>Events = EPOLLOUT OR EPOLLERR, Fd = 5\<rparr>"

definition epoll_answers :: "(errno + EpollEvent list) list \<Rightarrow> epoll_kernel" where
  "epoll_answers answers = \<lparr>EpollCreate1 = Inr 6, EpollCtl_ADD = None, EpollWait = answers\<rparr>"

definition close_succeeds :: teardown_env where
  "close_succeeds = \<lparr>select_tie = TimedOut, close_answer = None\<rparr>"

section \<open>Properties\<close>

subsection \<open>Evaluation of the examples\<close>

lemma sysfs_fields [simp]:
  "virtIOPath sysfs_vars = ''/sys/class/virtio-ports''"
  "devRootPath sysfs_vars = ''/dev''"
  "vSockDevPath sysfs_vars = ''/dev/vsock''"
  "serialChannelName sysfs_vars = ''foo''"
  "channelExistMaxTries sysfs_vars = 200"
  "channelExistWaitTime sysfs_vars = 50000000"
  "channelCloseTimeout sysfs_vars = 5000000000"
  by (simp_all add: sysfs_vars_def channel_go_vars_def Millisecond_def Second_def)

lemma ports_fs_fields [simp]:
  "os_Open (ports_fs l) ''/sys/class/virtio-ports'' = None"
  "os_Stat (ports_fs l) p = Some (PathError ''stat'' p ENOENT)"
  "Readdirnames (ports_fs l) p = Inr l"
  "ReadFile (ports_fs l) ''/sys/class/virtio-ports/A/name'' = Inr ''name=foo''"
  "ReadFile (ports_fs l) ''/sys/class/virtio-ports/B/name''
     = Inl (PathError ''open'' ''/sys/class/virtio-ports/B/name'' ENOENT)"
  "ReadFile (ports_fs l) ''/sys/class/virtio-ports/C/name'' = Inr ''xxxfooyyy''"
  "ReadFile (ports_fs l) ''/sys/class/virtio-ports/D/name'' = Inr ''bar''"
  "ReadFile (ports_fs l) ''/sys/class/virtio-ports/E/name''
     = Inl (PathError ''open'' ''/sys/class/virtio-ports/E/name'' EACCES)"
  by (simp_all add: ports_fs_def)

lemma contains_examples [simp]:
  "strings_Contains ''name=foo'' ''foo''"
  "strings_Contains ''xxxfooyyy'' ''foo''"
  "\<not> strings_Contains ''bar'' ''foo''"
  by (simp_all add: strings_Contains_def sublist_code(3))

lemma with_vsock_device_fields [simp]:
  "os_Stat (with_vsock_device fs) ''/dev/vsock'' = None"
  "os_Open (with_vsock_device fs) = os_Open fs"
  "Readdirnames (with_vsock_device fs) = Readdirnames fs"
  "ReadFile (with_vsock_device fs) = ReadFile fs"
  by (simp_all add: with_vsock_device_def)

lemma no_root_fs_Stat [simp]:
  "os_Stat no_root_fs p = Some (PathError ''stat'' p ENOENT)"
  by (simp add: no_root_fs_def)

lemma probe_examples [simp]:
  "isAFVSockSupported kernel_without_vsock = (False, None)"
  "isAFVSockSupported kernel_with_vsock = (True, None)"
  "isAFVSockSupported kernel_out_of_files = (False, Some (Errno EMFILE))"
  "isAFVSockSupported kernel_close_fails = (True, Some (Errno 5))"
  by (simp_all add: isAFVSockSupported_def kernel_without_vsock_def kernel_with_vsock_def
      kernel_out_of_files_def kernel_close_fails_def EMFILE_def EAFNOSUPPORT_def)

lemma resolver_examples [simp]:
  "findVirtualSerialPath sysfs_vars (ports_fs [''B'', ''D'']) ''foo''
     = Inl (GrpcStatus NotFound ''Could not find virtio port foo'')"
  "findVirtualSerialPath sysfs_vars (ports_fs [''B'', ''A'']) ''foo'' = Inr ''/dev/A''"
  "findVirtualSerialPath sysfs_vars (with_vsock_device (ports_fs [''B'', ''A''])) ''foo'' = Inr ''/dev/A''"
  "findVirtualSerialPath sysfs_vars no_root_fs ''foo''
     = Inl (OsError (PathError ''open'' ''/sys/class/virtio-ports'' ENOENT))"
  "findVirtualSerialPath sysfs_vars (with_vsock_device unlisted_fs) ''foo''
     = Inl (OsError (SyscallError ''readdirent'' EACCES))"
  by (simp_all add: findVirtualSerialPath_def filepath_Join_def ENOENT_def no_root_fs_def
      unlisted_fs_def)

lemma system_fields [simp]:
  "files dead_system = ports_fs [''B'', ''D'']"
  "files serial_system = ports_fs [''B'', ''A'']"
  "files vsock_system = with_vsock_device (ports_fs [''B'', ''A''])"
  "files close_fails_system = with_vsock_device (ports_fs [''B'', ''A''])"
  "files no_root_system = no_root_fs"
  "files out_of_files_system = with_vsock_device unlisted_fs"
  "vsock dead_system = kernel_without_vsock"
  "vsock serial_system = kernel_without_vsock"
  "vsock vsock_system = kernel_with_vsock"
  "vsock close_fails_system = kernel_close_fails"
  "vsock no_root_system = kernel_without_vsock"
  "vsock out_of_files_system = kernel_out_of_files"
  by (simp_all add: dead_system_def serial_system_def vsock_system_def close_fails_system_def
      no_root_system_def out_of_files_system_def)

lemma system_examples [simp]:
  "attempt_fails sysfs_vars dead_system"
  "attempt_fails sysfs_vars no_root_system"
  "attempt_fails sysfs_vars out_of_files_system"
  "\<not> vsock_usable sysfs_vars serial_system"
  "vsock_usable sysfs_vars vsock_system"
  by (simp_all add: attempt_fails_def vsock_usable_def serial_missing_def)

lemma event_bits [simp]:
  "Events hangup_event AND EPOLLOUT = 0"
  "Events hangup_event AND EPOLLERR = 0"
  "Events hangup_event AND EPOLLHUP \<noteq> 0"
  "Events writable_event AND EPOLLOUT \<noteq> 0"
  "Events error_event AND EPOLLOUT = 0"
  "Events error_event AND EPOLLERR \<noteq> 0"
  "Events writable_error_event AND EPOLLOUT \<noteq> 0"
  "Events writable_error_event AND EPOLLERR \<noteq> 0"
  "Fd hangup_event = 5" "Fd writable_event = 5" "Fd error_event = 5" "Fd writable_error_event = 5"
  by (simp_all add: hangup_event_def writable_event_def error_event_def writable_error_event_def
      EPOLLOUT_def EPOLLERR_def EPOLLHUP_def)

lemma opened_channel_Fd [simp]: "File_Fd (serialConn opened_channel) = 5"
  by (simp add: opened_channel_def File_Fd_def)

lemma serving_channel_lifecycle:
  "snd (serialChannel_setup (\<lambda>p. Inr 5) \<lparr>serialPath = ''/dev/A'', serialConn = None, waitCh = None\<rparr>) = opened_channel"
  "snd (serialChannel_listen (Inr NeverCloses) opened_channel) = serving_channel"
  by (simp_all add: serialChannel_setup_def serialChannel_listen_def opened_channel_def serving_channel_def)

subsection \<open>The loop over the ports\<close>

lemma ports_loop_append:
  "ports_loop v fs n (xs @ ys) =
     (case ports_loop v fs n xs of Some r \<Rightarrow> Some r | None \<Rightarrow> ports_loop v fs n ys)"
  by (induction xs) (simp_all split: sum.splits)

lemma ports_loop_None_iff:
  "ports_loop v fs n ports = None \<longleftrightarrow> (\<forall>p \<in> set ports. skipped v fs n p)"
  by (induction ports) (auto simp: skipped_def split: sum.splits)

lemma ports_loop_skipped:
  "\<forall>p \<in> set pre. skipped v fs n p \<Longrightarrow> ports_loop v fs n (pre @ rest) = ports_loop v fs n rest"
  by (simp add: ports_loop_append ports_loop_None_iff [THEN iffD2])

lemma ports_loop_not_status:
  "ports_loop v fs n ports \<noteq> Some (Inl (GrpcStatus c m))"
  by (induction ports) (auto split: sum.splits)

lemma ports_loop_listing:
  "ports_loop v (fs\<lparr>Readdirnames := f\<rparr>) n ports = ports_loop v fs n ports"
  by (induction ports) (simp_all split: sum.splits)

subsection \<open>The device-path resolver\<close>

text \<open>
  Claim C6. Once the root directory is opened and listed, whatever the listing: a port
  whose descriptor file does not exist can be taken out of the listing without changing
  the result; a port whose descriptor cannot be read for another reason, reached after
  skipped ports only, makes the resolver fail with that read error; and the first port,
  after skipped ports only, whose descriptor content contains the name makes the resolver
  return the device root joined with that port.
\<close>

theorem findVirtualSerialPath_scan:
  assumes opened: "os_Open fs (virtIOPath v) = None"
    and listed: "Readdirnames fs (virtIOPath v) = Inr (pre @ port # rest)"
  shows "(ReadFile fs (name_file v port) = Inl err1 \<and> os_IsNotExist err1 \<longrightarrow>
            findVirtualSerialPath v fs n
              = findVirtualSerialPath v (fs\<lparr>Readdirnames := \<lambda>_. Inr (pre @ rest)\<rparr>) n)
       \<and> ((\<forall>p \<in> set pre. skipped v fs n p) \<and>
            ReadFile fs (name_file v port) = Inl err2 \<and> \<not> os_IsNotExist err2 \<longrightarrow>
            findVirtualSerialPath v fs n = Inl (OsError err2))
       \<and> ((\<forall>p \<in> set pre. skipped v fs n p) \<and>
            ReadFile fs (name_file v port) = Inr content \<and> strings_Contains content n \<longrightarrow>
            findVirtualSerialPath v fs n = Inr (filepath_Join [devRootPath v, port]))"
proof (intro conjI impI)
  assume "ReadFile fs (name_file v port) = Inl err1 \<and> os_IsNotExist err1"
  then have step: "ports_loop v fs n (port # rest) = ports_loop v fs n rest"
    by simp
  have "ports_loop v fs n (pre @ port # rest) = ports_loop v fs n (pre @ rest)"
    unfolding ports_loop_append [of v fs n pre] step ..
  with opened listed
  show "findVirtualSerialPath v fs n
          = findVirtualSerialPath v (fs\<lparr>Readdirnames := \<lambda>_. Inr (pre @ rest)\<rparr>) n"
    by (simp add: findVirtualSerialPath_def ports_loop_listing)
next
  assume "(\<forall>p \<in> set pre. skipped v fs n p) \<and>
      ReadFile fs (name_file v port) = Inl err2 \<and> \<not> os_IsNotExist err2"
  then have "ports_loop v fs n (pre @ port # rest) = Some (Inl (OsError err2))"
    by (simp add: ports_loop_skipped)
  with opened listed show "findVirtualSerialPath v fs n = Inl (OsError err2)"
    by (simp add: findVirtualSerialPath_def)
next
  assume "(\<forall>p \<in> set pre. skipped v fs n p) \<and>
      ReadFile fs (name_file v port) = Inr content \<and> strings_Contains content n"
  then have "ports_loop v fs n (pre @ port # rest)
               = Some (Inr (filepath_Join [devRootPath v, port]))"
    by (simp add: ports_loop_skipped)
  with opened listed
  show "findVirtualSerialPath v fs n = Inr (filepath_Join [devRootPath v, port])"
    by (simp add: findVirtualSerialPath_def)
qed

theorem findVirtualSerialPath_scan_witness:
  "findVirtualSerialPath sysfs_vars (ports_fs [''D'', ''B'', ''C'', ''A'']) ''foo''
     = findVirtualSerialPath sysfs_vars
         ((ports_fs [''D'', ''B'', ''C'', ''A''])\<lparr>Readdirnames := \<lambda>_. Inr [''D'', ''C'', ''A'']\<rparr>)
         ''foo''
   \<and> findVirtualSerialPath sysfs_vars (ports_fs [''D'', ''B'', ''E'', ''A'']) ''foo''
       = Inl (OsError (PathError ''open'' ''/sys/class/virtio-ports/E/name'' EACCES))
   \<and> findVirtualSerialPath sysfs_vars (ports_fs [''D'', ''B'', ''C'', ''A'']) ''foo''
       = Inr ''/dev/C''"
proof (intro conjI)
  show "findVirtualSerialPath sysfs_vars (ports_fs [''D'', ''B'', ''C'', ''A'']) ''foo''
     = findVirtualSerialPath sysfs_vars
         ((ports_fs [''D'', ''B'', ''C'', ''A''])\<lparr>Readdirnames := \<lambda>_. Inr [''D'', ''C'', ''A'']\<rparr>)
         ''foo''"
    using findVirtualSerialPath_scan [of "ports_fs [''D'', ''B'', ''C'', ''A'']" sysfs_vars
        "[''D'']" "''B''" "[''C'', ''A'']"
        "PathError ''open'' ''/sys/class/virtio-ports/B/name'' ENOENT" "''foo''"]
    by (simp add: filepath_Join_def)
  show "findVirtualSerialPath sysfs_vars (ports_fs [''D'', ''B'', ''E'', ''A'']) ''foo''
       = Inl (OsError (PathError ''open'' ''/sys/class/virtio-ports/E/name'' EACCES))"
    using findVirtualSerialPath_scan [of "ports_fs [''D'', ''B'', ''E'', ''A'']" sysfs_vars
        "[''D'', ''B'']" "''E''" "[''A'']"
        _ "''foo''" "PathError ''open'' ''/sys/class/virtio-ports/E/name'' EACCES"]
    by (simp add: filepath_Join_def skipped_def EACCES_def ENOENT_def)
  show "findVirtualSerialPath sysfs_vars (ports_fs [''D'', ''B'', ''C'', ''A'']) ''foo''
          = Inr ''/dev/C''"
    using findVirtualSerialPath_scan [of "ports_fs [''D'', ''B'', ''C'', ''A'']" sysfs_vars
        "[''D'', ''B'']" "''C''" "[''A'']" _ "''foo''" _ "''xxxfooyyy''"]
    by (simp add: filepath_Join_def skipped_def)
qed

text \<open>
  Claim C7. The resolver fails with a status of code \<open>NotFound\<close> exactly when the root
  directory is opened and listed and every listed port is skipped, that is, the listing
  is exhausted and no descriptor content contains the name. When the root directory
  cannot be opened, or cannot be listed, the resolver fails with the error of that
  operation.
\<close>

theorem findVirtualSerialPath_failures:
  "((\<exists>msg. findVirtualSerialPath v fs n = Inl (GrpcStatus NotFound msg)) \<longleftrightarrow>
      os_Open fs (virtIOPath v) = None \<and>
      (\<exists>ports. Readdirnames fs (virtIOPath v) = Inr ports \<and>
         (\<forall>p \<in> set ports. skipped v fs n p)))
   \<and> (os_Open fs1 (virtIOPath v1) = Some err1 \<longrightarrow>
         findVirtualSerialPath v1 fs1 n1 = Inl (OsError err1))
   \<and> (os_Open fs2 (virtIOPath v2) = None \<and> Readdirnames fs2 (virtIOPath v2) = Inl err2 \<longrightarrow>
         findVirtualSerialPath v2 fs2 n2 = Inl (OsError err2))"
proof (intro conjI impI)
  show "(\<exists>msg. findVirtualSerialPath v fs n = Inl (GrpcStatus NotFound msg)) \<longleftrightarrow>
      os_Open fs (virtIOPath v) = None \<and>
      (\<exists>ports. Readdirnames fs (virtIOPath v) = Inr ports \<and>
         (\<forall>p \<in> set ports. skipped v fs n p))"
  proof (cases "os_Open fs (virtIOPath v)")
    case (Some e)
    then show ?thesis by (simp add: findVirtualSerialPath_def)
  next
    case None
    show ?thesis
    proof (cases "Readdirnames fs (virtIOPath v)")
      case (Inl e)
      with None show ?thesis by (simp add: findVirtualSerialPath_def)
    next
      case (Inr ports)
      show ?thesis
      proof (cases "ports_loop v fs n ports")
        case exhausted: None
        with None Inr show ?thesis
          by (simp add: findVirtualSerialPath_def ports_loop_None_iff [symmetric])
      next
        case (Some r)
        then have "r \<noteq> Inl (GrpcStatus NotFound msg)" for msg
          using ports_loop_not_status [of v fs n ports NotFound msg] by auto
        with None Inr Some show ?thesis
          by (simp add: findVirtualSerialPath_def ports_loop_None_iff [symmetric])
      qed
    qed
  qed
next
  assume "os_Open fs1 (virtIOPath v1) = Some err1"
  then show "findVirtualSerialPath v1 fs1 n1 = Inl (OsError err1)"
    by (simp add: findVirtualSerialPath_def)
next
  assume "os_Open fs2 (virtIOPath v2) = None \<and> Readdirnames fs2 (virtIOPath v2) = Inl err2"
  then show "findVirtualSerialPath v2 fs2 n2 = Inl (OsError err2)"
    by (simp add: findVirtualSerialPath_def)
qed

theorem findVirtualSerialPath_failures_witness:
  "(\<exists>msg. findVirtualSerialPath sysfs_vars (ports_fs [''B'', ''D'']) ''foo''
            = Inl (GrpcStatus NotFound msg))
   \<and> findVirtualSerialPath sysfs_vars no_root_fs ''foo''
       = Inl (OsError (PathError ''open'' ''/sys/class/virtio-ports'' ENOENT))
   \<and> findVirtualSerialPath sysfs_vars unlisted_fs ''foo''
       = Inl (OsError (SyscallError ''readdirent'' EACCES))"
proof (intro conjI)
  show "\<exists>msg. findVirtualSerialPath sysfs_vars (ports_fs [''B'', ''D'']) ''foo''
          = Inl (GrpcStatus NotFound msg)"
    using findVirtualSerialPath_failures [of sysfs_vars "ports_fs [''B'', ''D'']" "''foo''"]
    by (simp add: skipped_def filepath_Join_def ENOENT_def)
  show "findVirtualSerialPath sysfs_vars no_root_fs ''foo''
       = Inl (OsError (PathError ''open'' ''/sys/class/virtio-ports'' ENOENT))"
    using findVirtualSerialPath_failures [of _ _ _ no_root_fs sysfs_vars
        "PathError ''open'' ''/sys/class/virtio-ports'' ENOENT" "''foo''"]
    by (simp add: no_root_fs_def)
  show "findVirtualSerialPath sysfs_vars unlisted_fs ''foo''
       = Inl (OsError (SyscallError ''readdirent'' EACCES))"
    using findVirtualSerialPath_failures [of _ _ _ _ _ _ _ unlisted_fs sysfs_vars
        "SyscallError ''readdirent'' EACCES" "''foo''"]
    by (simp add: unlisted_fs_def)
qed

subsection \<open>The capability probe\<close>

text \<open>
  Claim C8. The probe returns \<open>false\<close> with a \<^verbatim>\<open>nil\<close> error exactly when the creation of
  the socket fails with \<open>EAFNOSUPPORT\<close>. Any other failure of the creation is returned as
  the error, with \<open>false\<close>, and a failure to close the created socket is returned as the
  error, with \<open>true\<close>.
\<close>

theorem isAFVSockSupported_results:
  "(isAFVSockSupported k = (False, None) \<longleftrightarrow> unix_Socket k = Inl EAFNOSUPPORT)
   \<and> (unix_Socket k1 = Inl e1 \<and> e1 \<noteq> EAFNOSUPPORT \<longrightarrow>
        isAFVSockSupported k1 = (False, Some (Errno e1)))
   \<and> (unix_Socket k2 = Inr d \<and> unix_Close k2 d = Some e2 \<longrightarrow>
        isAFVSockSupported k2 = (True, Some (Errno e2)))"
  by (auto simp: isAFVSockSupported_def split: sum.splits option.splits)

theorem isAFVSockSupported_results_witness:
  "isAFVSockSupported kernel_without_vsock = (False, None)
   \<and> isAFVSockSupported kernel_out_of_files = (False, Some (Errno EMFILE))
   \<and> isAFVSockSupported kernel_close_fails = (True, Some (Errno 5))"
  using isAFVSockSupported_results
    [of kernel_without_vsock kernel_out_of_files EMFILE kernel_close_fails 7 5]
  by (simp add: kernel_without_vsock_def kernel_out_of_files_def kernel_close_fails_def
      EMFILE_def EAFNOSUPPORT_def)

subsection \<open>The discovery loop\<close>

lemma check_vsock_path_usable:
  "fst (check_vsock_path v sys s) = vsock_usable v sys"
  by (auto simp: check_vsock_path_def vsock_usable_def split: option.splits prod.splits)

lemma check_vsock_path_sleeps:
  "sleeps (snd (check_vsock_path v sys s)) = sleeps s"
  by (simp add: check_vsock_path_def split: option.splits prod.splits)

lemma check_vsock_path_vsockErr:
  "vsockErr (snd (check_vsock_path v sys s)) =
     (case os_Stat (files sys) (vSockDevPath v) of
        Some e \<Rightarrow> vsockErr s
      | None \<Rightarrow> snd (isAFVSockSupported (vsock sys)))"
  by (simp add: check_vsock_path_def split: option.splits prod.splits)

lemma channel_loop_exit:
  "\<not> i < channelExistMaxTries v \<Longrightarrow> channel_loop v w i s = (None, s)"
  by (simp add: channel_loop.simps)

lemma channel_loop_vsock:
  assumes "i < channelExistMaxTries v" and "vsock_usable v (w i)"
  shows "channel_loop v w i s = (Some VSockChannel, snd (check_vsock_path v (w i) s))"
proof -
  from assms(2) have "fst (check_vsock_path v (w i) s)"
    by (simp add: check_vsock_path_usable)
  then obtain s1 where "check_vsock_path v (w i) s = (True, s1)"
    by (cases "check_vsock_path v (w i) s") auto
  with assms(1) show ?thesis
    by (simp add: channel_loop.simps)
qed

lemma channel_loop_fail:
  assumes "i < channelExistMaxTries v" and "attempt_fails v (w i)"
  shows "\<exists>err. findVirtualSerialPath v (files (w i)) (serialChannelName v) = Inl err \<and>
           channel_loop v w i s =
             channel_loop v w (i + 1)
               ((snd (check_vsock_path v (w i) s))
                  \<lparr>serialErr := Some err,
                   sleeps := sleeps s @ [channelExistWaitTime v]\<rparr>)"
proof -
  from assms(2) have "\<not> fst (check_vsock_path v (w i) s)"
    by (simp add: check_vsock_path_usable attempt_fails_def)
  then obtain s1 where s1: "check_vsock_path v (w i) s = (False, s1)"
    by (cases "check_vsock_path v (w i) s") auto
  from assms(2) obtain err
    where err: "findVirtualSerialPath v (files (w i)) (serialChannelName v) = Inl err"
    by (auto simp: attempt_fails_def serial_missing_def isl_def)
  have "sleeps s1 = sleeps s"
    using check_vsock_path_sleeps [of v "w i" s] s1 by simp
  with assms(1) s1 err show ?thesis
    by (simp add: channel_loop.simps [of v w i s])
qed

lemma channel_loop_serial:
  assumes "i < channelExistMaxTries v" and "\<not> vsock_usable v (w i)"
    and "findVirtualSerialPath v (files (w i)) (serialChannelName v) = Inr path"
  shows "channel_loop v w i s =
           (Some (SerialChannel \<lparr>serialPath = path, serialConn = None, waitCh = None\<rparr>),
            (snd (check_vsock_path v (w i) s))\<lparr>serialErr := None\<rparr>)"
proof -
  from assms(2) have "\<not> fst (check_vsock_path v (w i) s)"
    by (simp add: check_vsock_path_usable)
  then obtain s1 where s1: "check_vsock_path v (w i) s = (False, s1)"
    by (cases "check_vsock_path v (w i) s") auto
  with assms(1,3) show ?thesis
    by (simp add: channel_loop.simps [of v w i s])
qed

text \<open>A run of \<open>k\<close> failing iterations sleeps \<open>k\<close> times and goes on.\<close>

lemma channel_loop_failures:
  assumes "\<forall>j. i \<le> j \<and> j < i + int k \<longrightarrow> attempt_fails v (w j)"
    and "i + int k \<le> channelExistMaxTries v"
  shows "\<exists>s'. channel_loop v w i s = channel_loop v w (i + int k) s' \<and>
           sleeps s' = sleeps s @ replicate k (channelExistWaitTime v)"
  using assms
proof (induction k arbitrary: i s)
  case 0
  then show ?case by (auto intro: exI [of _ s])
next
  case (Suc k)
  from Suc.prems have "i < channelExistMaxTries v" and "attempt_fails v (w i)"
    by auto
  from channel_loop_fail [where i = i and v = v and w = w and s = s, OF this] obtain s1
    where s1: "channel_loop v w i s = channel_loop v w (i + 1) s1"
      and sl1: "sleeps s1 = sleeps s @ [channelExistWaitTime v]"
    by auto
  from Suc.prems have "\<forall>j. i + 1 \<le> j \<and> j < i + 1 + int k \<longrightarrow> attempt_fails v (w j)"
    and "i + 1 + int k \<le> channelExistMaxTries v"
    by auto
  from Suc.IH [OF this, of s1] obtain s'
    where "channel_loop v w (i + 1) s1 = channel_loop v w (i + 1 + int k) s'"
      and "sleeps s' = sleeps s1 @ replicate k (channelExistWaitTime v)"
    by auto
  with s1 sl1 show ?case
    by (auto simp: add.assoc replicate_append_same intro!: exI [of _ s'])
qed

text \<open>
  The loop when every remaining iteration fails: it ends without a channel, has slept once
  per iteration, keeps the resolver's error of the last iteration and the error of the
  last probe made.
\<close>

lemma channel_loop_exhausted:
  assumes "\<forall>j. i \<le> j \<and> j < channelExistMaxTries v \<longrightarrow> attempt_fails v (w j)"
    and "n = nat (channelExistMaxTries v - i)"
  shows "fst (channel_loop v w i s) = None
    \<and> sleeps (snd (channel_loop v w i s)) = sleeps s @ replicate n (channelExistWaitTime v)
    \<and> (i < channelExistMaxTries v \<longrightarrow>
         (\<forall>e. findVirtualSerialPath v (files (w (channelExistMaxTries v - 1))) (serialChannelName v) = Inl e
            \<longrightarrow> serialErr (snd (channel_loop v w i s)) = Some e))
    \<and> ((\<forall>j. i \<le> j \<and> j < channelExistMaxTries v \<longrightarrow> os_Stat (files (w j)) (vSockDevPath v) \<noteq> None)
         \<longrightarrow> vsockErr (snd (channel_loop v w i s)) = vsockErr s)
    \<and> (\<forall>k. i \<le> k \<and> k < channelExistMaxTries v \<and> os_Stat (files (w k)) (vSockDevPath v) = None \<and>
            (\<forall>j. k < j \<and> j < channelExistMaxTries v \<longrightarrow> os_Stat (files (w j)) (vSockDevPath v) \<noteq> None)
         \<longrightarrow> vsockErr (snd (channel_loop v w i s)) = snd (isAFVSockSupported (vsock (w k))))"
  using assms
proof (induction n arbitrary: i s)
  case 0
  then have "\<not> i < channelExistMaxTries v" by simp
  then show ?case
    by (auto simp: channel_loop_exit)
next
  case (Suc n)
  let ?N = "channelExistMaxTries v"
  from Suc.prems have lt: "i < ?N" by simp
  with Suc.prems have "attempt_fails v (w i)" by simp
  from channel_loop_fail [where i = i and v = v and w = w and s = s, OF lt this] obtain err s1
    where err: "findVirtualSerialPath v (files (w i)) (serialChannelName v) = Inl err"
      and s1: "s1 = (snd (check_vsock_path v (w i) s))
                  \<lparr>serialErr := Some err, sleeps := sleeps s @ [channelExistWaitTime v]\<rparr>"
      and step: "channel_loop v w i s = channel_loop v w (i + 1) s1"
    by auto
  have v1: "vsockErr s1 = (case os_Stat (files (w i)) (vSockDevPath v) of
              Some e \<Rightarrow> vsockErr s | None \<Rightarrow> snd (isAFVSockSupported (vsock (w i))))"
    by (simp add: s1 check_vsock_path_vsockErr)
  from Suc.prems have "\<forall>j. i + 1 \<le> j \<and> j < ?N \<longrightarrow> attempt_fails v (w j)"
    and "n = nat (?N - (i + 1))"
    by auto
  note IH = Suc.IH [OF this, of s1, folded step]
  show ?case
  proof (intro conjI impI allI)
    show "fst (channel_loop v w i s) = None"
      using IH by simp
    show "sleeps (snd (channel_loop v w i s)) = sleeps s @ replicate (Suc n) (channelExistWaitTime v)"
      using IH by (simp add: s1 replicate_append_same)
  next
    fix e
    assume last: "findVirtualSerialPath v (files (w (?N - 1))) (serialChannelName v) = Inl e"
    show "serialErr (snd (channel_loop v w i s)) = Some e"
    proof (cases "i + 1 < ?N")
      case True
      with IH last show ?thesis by simp
    next
      case False
      with lt have "i = ?N - 1" by simp
      with last err have "err = e" by simp
      moreover from False have "channel_loop v w (i + 1) s1 = (None, s1)"
        by (rule channel_loop_exit)
      ultimately show ?thesis by (simp add: step s1)
    qed
  next
    assume "\<forall>j. i \<le> j \<and> j < ?N \<longrightarrow> os_Stat (files (w j)) (vSockDevPath v) \<noteq> None"
    then have "os_Stat (files (w i)) (vSockDevPath v) \<noteq> None"
      and "\<forall>j. i + 1 \<le> j \<and> j < ?N \<longrightarrow> os_Stat (files (w j)) (vSockDevPath v) \<noteq> None"
      using lt by auto
    with IH v1 show "vsockErr (snd (channel_loop v w i s)) = vsockErr s"
      by auto
  next
    fix k
    assume k: "i \<le> k \<and> k < ?N \<and> os_Stat (files (w k)) (vSockDevPath v) = None \<and>
            (\<forall>j. k < j \<and> j < ?N \<longrightarrow> os_Stat (files (w j)) (vSockDevPath v) \<noteq> None)"
    show "vsockErr (snd (channel_loop v w i s)) = snd (isAFVSockSupported (vsock (w k)))"
    proof (cases "k = i")
      case True
      with k have "\<forall>j. i + 1 \<le> j \<and> j < ?N \<longrightarrow> os_Stat (files (w j)) (vSockDevPath v) \<noteq> None"
        by auto
      with IH have "vsockErr (snd (channel_loop v w i s)) = vsockErr s1"
        by blast
      with v1 k True show ?thesis by simp
    next
      case False
      with k have "i + 1 \<le> k" by simp
      with IH k show ?thesis by blast
    qed
  qed
qed

lemma newChannel_exhausted:
  assumes "fst (channel_loop v w 0 \<lparr>serialErr = None, vsockErr = None, sleeps = []\<rparr>) = None"
  shows "newChannel v w =
    \<lparr>returned = Inl (ErrorString ''Neither vsocks nor serial ports were found''),
     logged =
       log_if (serialErr (snd (channel_loop v w 0 \<lparr>serialErr = None, vsockErr = None, sleeps = []\<rparr>)))
         ''Serial port not found''
       @ log_if (vsockErr (snd (channel_loop v w 0 \<lparr>serialErr = None, vsockErr = None, sleeps = []\<rparr>)))
         ''VSock not found'',
     slept = sleeps (snd (channel_loop v w 0 \<lparr>serialErr = None, vsockErr = None, sleeps = []\<rparr>))\<rparr>"
  using assms
  by (cases "channel_loop v w 0 \<lparr>serialErr = None, vsockErr = None, sleeps = []\<rparr>")
    (simp add: newChannel_def)

lemma newChannel_found:
  assumes "fst (channel_loop v w 0 \<lparr>serialErr = None, vsockErr = None, sleeps = []\<rparr>) = Some c"
  shows "newChannel v w =
    \<lparr>returned = Inr c, logged = [],
     slept = sleeps (snd (channel_loop v w 0 \<lparr>serialErr = None, vsockErr = None, sleeps = []\<rparr>))\<rparr>"
  using assms
  by (cases "channel_loop v w 0 \<lparr>serialErr = None, vsockErr = None, sleeps = []\<rparr>")
    (simp add: newChannel_def)

subsection \<open>Discovery\<close>

text \<open>
  Claim C5. For every number of tries \<open>N\<close> and every wait time \<open>T\<close>: when every
  iteration fails, that is, neither transport ever becomes available, \<^verbatim>\<open>newChannel\<close>
  returns the error \<open>Neither vsocks nor serial ports were found\<close> after at least
  \<open>N - 1\<close> calls of \<^verbatim>\<open>time.Sleep\<close>, each of them for \<open>T\<close>; for a wait time that is not
  negative the time slept is at least \<open>(N - 1) * T\<close>.
\<close>

theorem newChannel_blocks:
  assumes "\<forall>j. 0 \<le> j \<and> j < channelExistMaxTries v \<longrightarrow> attempt_fails v (w j)"
  shows "returned (newChannel v w) = Inl (ErrorString ''Neither vsocks nor serial ports were found'')
    \<and> channelExistMaxTries v - 1 \<le> int (length (slept (newChannel v w)))
    \<and> (\<forall>d \<in> set (slept (newChannel v w)). d = channelExistWaitTime v)
    \<and> (0 \<le> channelExistWaitTime v \<longrightarrow>
         (channelExistMaxTries v - 1) * channelExistWaitTime v \<le> sum_list (slept (newChannel v w)))"
proof -
  let ?s0 = "\<lparr>serialErr = None, vsockErr = None, sleeps = []\<rparr>"
  let ?N = "channelExistMaxTries v" and ?T = "channelExistWaitTime v"
  from channel_loop_exhausted [OF assms refl, of ?s0]
  have none: "fst (channel_loop v w 0 ?s0) = None"
    and sl: "sleeps (snd (channel_loop v w 0 ?s0)) = replicate (nat ?N) ?T"
    by simp_all
  from none have ret: "returned (newChannel v w)
      = Inl (ErrorString ''Neither vsocks nor serial ports were found'')"
    by (simp add: newChannel_exhausted)
  from none sl have slept: "slept (newChannel v w) = replicate (nat ?N) ?T"
    by (simp add: newChannel_exhausted)
  have "0 \<le> ?T \<Longrightarrow> (?N - 1) * ?T \<le> int (nat ?N) * ?T"
    by (rule mult_right_mono) simp_all
  with ret slept show ?thesis
    by (simp add: sum_list_replicate)
qed

theorem newChannel_blocks_witness:
  "returned (newChannel sysfs_vars (\<lambda>i. dead_system))
      = Inl (ErrorString ''Neither vsocks nor serial ports were found'')
    \<and> (199 :: int) \<le> int (length (slept (newChannel sysfs_vars (\<lambda>i. dead_system))))
    \<and> set (slept (newChannel sysfs_vars (\<lambda>i. dead_system))) \<subseteq> {50000000}
    \<and> (9950000000 :: int) \<le> sum_list (slept (newChannel sysfs_vars (\<lambda>i. dead_system)))"
  using newChannel_blocks [of sysfs_vars "\<lambda>i. dead_system"]
  by auto

text \<open>
  Claim C10. When every iteration fails, \<^verbatim>\<open>newChannel\<close> sleeps after each of them, the
  last one included: it returns the error after exactly \<open>N\<close> sleeps of \<open>T\<close>, that is
  \<open>N * T\<close> in total, which for a positive wait time is strictly more than
  \<open>(N - 1) * T\<close>.
\<close>

theorem newChannel_sleeps_after_every_failure:
  assumes "\<forall>j. 0 \<le> j \<and> j < channelExistMaxTries v \<longrightarrow> attempt_fails v (w j)"
    and "0 \<le> channelExistMaxTries v"
  shows "returned (newChannel v w) = Inl (ErrorString ''Neither vsocks nor serial ports were found'')
    \<and> slept (newChannel v w) = replicate (nat (channelExistMaxTries v)) (channelExistWaitTime v)
    \<and> int (length (slept (newChannel v w))) = channelExistMaxTries v
    \<and> sum_list (slept (newChannel v w)) = channelExistMaxTries v * channelExistWaitTime v
    \<and> (0 < channelExistWaitTime v \<longrightarrow>
         (channelExistMaxTries v - 1) * channelExistWaitTime v < sum_list (slept (newChannel v w)))"
proof -
  let ?s0 = "\<lparr>serialErr = None, vsockErr = None, sleeps = []\<rparr>"
  let ?N = "channelExistMaxTries v" and ?T = "channelExistWaitTime v"
  from channel_loop_exhausted [OF assms(1) refl, of ?s0]
  have none: "fst (channel_loop v w 0 ?s0) = None"
    and sl: "sleeps (snd (channel_loop v w 0 ?s0)) = replicate (nat ?N) ?T"
    by simp_all
  from none have ret: "returned (newChannel v w)
      = Inl (ErrorString ''Neither vsocks nor serial ports were found'')"
    by (simp add: newChannel_exhausted)
  from none sl have slept: "slept (newChannel v w) = replicate (nat ?N) ?T"
    by (simp add: newChannel_exhausted)
  have "0 < ?T \<Longrightarrow> (?N - 1) * ?T < ?N * ?T"
    by (rule mult_strict_right_mono) simp_all
  with ret slept assms(2) show ?thesis
    by (simp add: sum_list_replicate)
qed

theorem newChannel_sleeps_after_every_failure_witness:
  "returned (newChannel sysfs_vars (\<lambda>i. dead_system))
      = Inl (ErrorString ''Neither vsocks nor serial ports were found'')
    \<and> slept (newChannel sysfs_vars (\<lambda>i. dead_system)) = replicate 200 50000000
    \<and> int (length (slept (newChannel sysfs_vars (\<lambda>i. dead_system)))) = 200
    \<and> sum_list (slept (newChannel sysfs_vars (\<lambda>i. dead_system))) = 10000000000
    \<and> (9950000000 :: int) < sum_list (slept (newChannel sysfs_vars (\<lambda>i. dead_system)))"
  using newChannel_sleeps_after_every_failure [of sysfs_vars "\<lambda>i. dead_system"]
  by (simp add: sum_list_replicate)

text \<open>
  Claim C2 fails as it is stated. In the history \<open>serial_then_vsock\<close> the vsock device
  is absent at iteration 0 and present, with a successful probe, at iteration 1, and the
  serial port is resolved at iteration 0: \<^verbatim>\<open>newChannel\<close> returns the serial channel at
  iteration 0 and never looks at iteration 1.
\<close>

theorem newChannel_serial_sticks:
  "os_Stat (files (serial_then_vsock 0)) (vSockDevPath sysfs_vars) \<noteq> None
   \<and> findVirtualSerialPath sysfs_vars (files (serial_then_vsock 0)) (serialChannelName sysfs_vars)
       = Inr ''/dev/A''
   \<and> os_Stat (files (serial_then_vsock 1)) (vSockDevPath sysfs_vars) = None
   \<and> isAFVSockSupported (vsock (serial_then_vsock 1)) = (True, None)
   \<and> returned (newChannel sysfs_vars serial_then_vsock)
       = Inr (SerialChannel \<lparr>serialPath = ''/dev/A'', serialConn = None, waitCh = None\<rparr>)
   \<and> returned (newChannel sysfs_vars serial_then_vsock) \<noteq> Inr VSockChannel"
proof -
  let ?s0 = "\<lparr>serialErr = None, vsockErr = None, sleeps = []\<rparr>"
  have "channel_loop sysfs_vars serial_then_vsock 0 ?s0 =
      (Some (SerialChannel \<lparr>serialPath = ''/dev/A'', serialConn = None, waitCh = None\<rparr>),
       (snd (check_vsock_path sysfs_vars (serial_then_vsock 0) ?s0))\<lparr>serialErr := None\<rparr>)"
    by (rule channel_loop_serial) (simp_all add: serial_then_vsock_def)
  then have "returned (newChannel sysfs_vars serial_then_vsock)
       = Inr (SerialChannel \<lparr>serialPath = ''/dev/A'', serialConn = None, waitCh = None\<rparr>)"
    by (simp add: newChannel_found)
  then show ?thesis
    by (simp add: serial_then_vsock_def)
qed

text \<open>
  Claim C2, amended. The first iteration that does not fail decides, and the vsock
  channel is preferred within it: if every iteration before \<open>k\<close> failed, so that no
  serial port was resolved before, and the vsock device is usable at iteration \<open>k\<close>
  (the path exists and the probe succeeds), then \<^verbatim>\<open>newChannel\<close> returns the vsock
  channel at iteration \<open>k\<close>, after \<open>k\<close> sleeps, whether or not a serial port is
  resolvable at iteration \<open>k\<close>; if instead the vsock device is not usable at iteration
  \<open>k\<close> and the serial port is resolved there, \<^verbatim>\<open>newChannel\<close> returns the serial
  channel at iteration \<open>k\<close>, whatever later iterations would find.
\<close>

theorem newChannel_first_success:
  assumes "0 \<le> k" and "k < channelExistMaxTries v"
    and "\<forall>j. 0 \<le> j \<and> j < k \<longrightarrow> attempt_fails v (w j)"
  shows "(vsock_usable v (w k) \<longrightarrow>
            returned (newChannel v w) = Inr VSockChannel
            \<and> slept (newChannel v w) = replicate (nat k) (channelExistWaitTime v))
    \<and> (\<not> vsock_usable v (w k)
         \<and> findVirtualSerialPath v (files (w k)) (serialChannelName v) = Inr path \<longrightarrow>
            returned (newChannel v w)
              = Inr (SerialChannel \<lparr>serialPath = path, serialConn = None, waitCh = None\<rparr>)
            \<and> slept (newChannel v w) = replicate (nat k) (channelExistWaitTime v))"
proof -
  let ?s0 = "\<lparr>serialErr = None, vsockErr = None, sleeps = []\<rparr>"
  from assms(1,3) have "\<forall>j. 0 \<le> j \<and> j < 0 + int (nat k) \<longrightarrow> attempt_fails v (w j)"
    by simp
  moreover from assms(1,2) have "0 + int (nat k) \<le> channelExistMaxTries v"
    by simp
  ultimately obtain s' where run: "channel_loop v w 0 ?s0 = channel_loop v w (0 + int (nat k)) s'"
    and sl: "sleeps s' = sleeps ?s0 @ replicate (nat k) (channelExistWaitTime v)"
    using channel_loop_failures [where i = 0 and k = "nat k" and v = v and w = w and s = ?s0]
    by blast
  from assms(1) have k: "0 + int (nat k) = k" by simp
  show ?thesis
  proof (intro conjI impI)
    assume "vsock_usable v (w k)"
    with assms(2)
    have "channel_loop v w k s' = (Some VSockChannel, snd (check_vsock_path v (w k) s'))"
      by (rule channel_loop_vsock)
    with run k have found: "channel_loop v w 0 ?s0
        = (Some VSockChannel, snd (check_vsock_path v (w k) s'))"
      by simp
    then have "fst (channel_loop v w 0 ?s0) = Some VSockChannel"
      by simp
    from newChannel_found [OF this] found sl
    show "returned (newChannel v w) = Inr VSockChannel"
      and "slept (newChannel v w) = replicate (nat k) (channelExistWaitTime v)"
      by (simp_all add: check_vsock_path_sleeps)
  next
    assume "\<not> vsock_usable v (w k)
      \<and> findVirtualSerialPath v (files (w k)) (serialChannelName v) = Inr path"
    with assms(2)
    have "channel_loop v w k s' =
           (Some (SerialChannel \<lparr>serialPath = path, serialConn = None, waitCh = None\<rparr>),
            (snd (check_vsock_path v (w k) s'))\<lparr>serialErr := None\<rparr>)"
      by (simp add: channel_loop_serial)
    with run k have found: "channel_loop v w 0 ?s0 =
           (Some (SerialChannel \<lparr>serialPath = path, serialConn = None, waitCh = None\<rparr>),
            (snd (check_vsock_path v (w k) s'))\<lparr>serialErr := None\<rparr>)"
      by simp
    then have "fst (channel_loop v w 0 ?s0)
        = Some (SerialChannel \<lparr>serialPath = path, serialConn = None, waitCh = None\<rparr>)"
      by simp
    from newChannel_found [OF this] found sl
    show "returned (newChannel v w)
              = Inr (SerialChannel \<lparr>serialPath = path, serialConn = None, waitCh = None\<rparr>)"
      and "slept (newChannel v w) = replicate (nat k) (channelExistWaitTime v)"
      by (simp_all add: check_vsock_path_sleeps)
  qed
qed

theorem newChannel_first_success_witness:
  "attempt_fails sysfs_vars (late_vsock 0) \<and> attempt_fails sysfs_vars (late_vsock 1)
   \<and> vsock_usable sysfs_vars (late_vsock 2)
   \<and> findVirtualSerialPath sysfs_vars (files (late_vsock 2)) ''foo'' = Inr ''/dev/A''
   \<and> returned (newChannel sysfs_vars late_vsock) = Inr VSockChannel
   \<and> slept (newChannel sysfs_vars late_vsock) = [50000000, 50000000]
   \<and> returned (newChannel sysfs_vars serial_then_vsock)
       = Inr (SerialChannel \<lparr>serialPath = ''/dev/A'', serialConn = None, waitCh = None\<rparr>)
   \<and> slept (newChannel sysfs_vars serial_then_vsock) = []"
proof -
  have "\<forall>j. 0 \<le> j \<and> j < 2 \<longrightarrow> attempt_fails sysfs_vars (late_vsock j)"
    by (simp add: late_vsock_def)
  moreover have "vsock_usable sysfs_vars (late_vsock 2)"
    by (simp add: late_vsock_def)
  ultimately have late: "attempt_fails sysfs_vars (late_vsock 0) \<and> attempt_fails sysfs_vars (late_vsock 1)
   \<and> vsock_usable sysfs_vars (late_vsock 2)
   \<and> findVirtualSerialPath sysfs_vars (files (late_vsock 2)) ''foo'' = Inr ''/dev/A''
   \<and> returned (newChannel sysfs_vars late_vsock) = Inr VSockChannel
   \<and> slept (newChannel sysfs_vars late_vsock) = [50000000, 50000000]"
    using newChannel_first_success [of 2 sysfs_vars late_vsock]
    by (simp add: late_vsock_def numeral_2_eq_2)
  have "\<forall>j. 0 \<le> j \<and> j < (0::int) \<longrightarrow> attempt_fails sysfs_vars (serial_then_vsock j)"
    by arith
  from newChannel_first_success [of 0 sysfs_vars serial_then_vsock "''/dev/A''", OF _ _ this]
  have "returned (newChannel sysfs_vars serial_then_vsock)
       = Inr (SerialChannel \<lparr>serialPath = ''/dev/A'', serialConn = None, waitCh = None\<rparr>)
   \<and> slept (newChannel sysfs_vars serial_then_vsock) = []"
    by (simp add: serial_then_vsock_def)
  with late show ?thesis by simp
qed

text \<open>
  Claim C9. In an iteration where the vsock device path exists and the probe creates the
  socket but fails to close it, the probe answers \<open>true\<close> with that error and the
  iteration does not return the vsock channel: it goes on to the resolver, returns the
  serial channel when the resolver succeeds, and sleeps and continues when it fails.
\<close>

theorem channel_loop_probe_error_falls_through:
  assumes "i < channelExistMaxTries v"
    and "os_Stat (files (w i)) (vSockDevPath v) = None"
    and "unix_Socket (vsock (w i)) = Inr d"
    and "unix_Close (vsock (w i)) d = Some e"
  shows "isAFVSockSupported (vsock (w i)) = (True, Some (Errno e))
    \<and> channel_loop v w i s =
        (case findVirtualSerialPath v (files (w i)) (serialChannelName v) of
           Inr path \<Rightarrow>
             (Some (SerialChannel \<lparr>serialPath = path, serialConn = None, waitCh = None\<rparr>),
              s\<lparr>vsockErr := Some (Errno e), serialErr := None\<rparr>)
         | Inl err \<Rightarrow>
             channel_loop v w (i + 1)
               (s\<lparr>vsockErr := Some (Errno e), serialErr := Some err,
                  sleeps := sleeps s @ [channelExistWaitTime v]\<rparr>))"
proof -
  from assms(3,4) have probe: "isAFVSockSupported (vsock (w i)) = (True, Some (Errno e))"
    by (simp add: isAFVSockSupported_def)
  with assms(2) have "check_vsock_path v (w i) s = (False, s\<lparr>vsockErr := Some (Errno e)\<rparr>)"
    by (simp add: check_vsock_path_def)
  with assms(1) probe show ?thesis
    by (simp add: channel_loop.simps [of v w i s] split: sum.splits)
qed

theorem channel_loop_probe_error_falls_through_witness:
  "isAFVSockSupported (vsock close_fails_system) = (True, Some (Errno 5))
   \<and> channel_loop sysfs_vars (\<lambda>i. close_fails_system) 0
        \<lparr>serialErr = None, vsockErr = None, sleeps = []\<rparr>
      = (Some (SerialChannel \<lparr>serialPath = ''/dev/A'', serialConn = None, waitCh = None\<rparr>),
         \<lparr>serialErr = None, vsockErr = Some (Errno 5), sleeps = []\<rparr>)"
  using channel_loop_probe_error_falls_through
    [of 0 sysfs_vars "\<lambda>i. close_fails_system" 7 5 "\<lparr>serialErr = None, vsockErr = None, sleeps = []\<rparr>"]
  by (simp add: kernel_close_fails_def)

text \<open>
  Claim C4 fails as it is stated. Two systems where discovery is exhausted with different
  underlying errors (the root directory missing and no probe made; the root directory
  unreadable and the probe out of descriptors) get the same returned error, a fixed
  message; the underlying errors are in the log only.
\<close>

theorem newChannel_error_carries_nothing:
  "returned (newChannel sysfs_vars (\<lambda>i. no_root_system))
     = Inl (ErrorString ''Neither vsocks nor serial ports were found'')
   \<and> logged (newChannel sysfs_vars (\<lambda>i. no_root_system))
     = [LogError (OsError (PathError ''open'' ''/sys/class/virtio-ports'' ENOENT))
          ''Serial port not found'']
   \<and> returned (newChannel sysfs_vars (\<lambda>i. out_of_files_system))
     = Inl (ErrorString ''Neither vsocks nor serial ports were found'')
   \<and> logged (newChannel sysfs_vars (\<lambda>i. out_of_files_system))
     = [LogError (OsError (SyscallError ''readdirent'' EACCES)) ''Serial port not found'',
        LogError (Errno EMFILE) ''VSock not found'']
   \<and> returned (newChannel sysfs_vars (\<lambda>i. no_root_system))
     = returned (newChannel sysfs_vars (\<lambda>i. out_of_files_system))"
proof -
  let ?s0 = "\<lparr>serialErr = None, vsockErr = None, sleeps = []\<rparr>"
  have a: "\<forall>j. 0 \<le> j \<and> j < channelExistMaxTries sysfs_vars \<longrightarrow>
      attempt_fails sysfs_vars ((\<lambda>i. no_root_system) j)"
    by simp
  note ea = channel_loop_exhausted [OF a refl, of ?s0]
  from ea have "fst (channel_loop sysfs_vars (\<lambda>i. no_root_system) 0 ?s0) = None"
    by simp
  note na = newChannel_exhausted [OF this]
  from ea have "serialErr (snd (channel_loop sysfs_vars (\<lambda>i. no_root_system) 0 ?s0))
      = Some (OsError (PathError ''open'' ''/sys/class/virtio-ports'' ENOENT))"
    by simp
  moreover from ea have "vsockErr (snd (channel_loop sysfs_vars (\<lambda>i. no_root_system) 0 ?s0)) = None"
    by simp
  ultimately have la: "logged (newChannel sysfs_vars (\<lambda>i. no_root_system))
     = [LogError (OsError (PathError ''open'' ''/sys/class/virtio-ports'' ENOENT))
          ''Serial port not found'']"
    by (simp add: na log_if_def)
  have b: "\<forall>j. 0 \<le> j \<and> j < channelExistMaxTries sysfs_vars \<longrightarrow>
      attempt_fails sysfs_vars ((\<lambda>i. out_of_files_system) j)"
    by simp
  note eb = channel_loop_exhausted [OF b refl, of ?s0]
  from eb have "fst (channel_loop sysfs_vars (\<lambda>i. out_of_files_system) 0 ?s0) = None"
    by simp
  note nb = newChannel_exhausted [OF this]
  from eb have "serialErr (snd (channel_loop sysfs_vars (\<lambda>i. out_of_files_system) 0 ?s0))
      = Some (OsError (SyscallError ''readdirent'' EACCES))"
    by simp
  moreover from eb have "vsockErr (snd (channel_loop sysfs_vars (\<lambda>i. out_of_files_system) 0 ?s0))
      = Some (Errno EMFILE)"
    by (auto dest!: spec [of _ 199])
  ultimately have lb: "logged (newChannel sysfs_vars (\<lambda>i. out_of_files_system))
     = [LogError (OsError (SyscallError ''readdirent'' EACCES)) ''Serial port not found'',
        LogError (Errno EMFILE) ''VSock not found'']"
    by (simp add: nb log_if_def)
  from la lb show ?thesis
    by (simp add: na nb)
qed

text \<open>
  Claim C4, amended. When all iterations, at least one, are exhausted, \<^verbatim>\<open>newChannel\<close>
  returns the fixed error \<open>Neither vsocks nor serial ports were found\<close>, and the
  underlying errors are logged: the resolver's error of the last iteration, followed by
  the error of the last probe made, if a probe was made and its error is not \<^verbatim>\<open>nil\<close>.
\<close>

theorem newChannel_not_found:
  assumes fails: "\<forall>j. 0 \<le> j \<and> j < channelExistMaxTries v \<longrightarrow> attempt_fails v (w j)"
    and tries: "0 < channelExistMaxTries v"
  shows "returned (newChannel v w) = Inl (ErrorString ''Neither vsocks nor serial ports were found'')
    \<and> (\<exists>e. findVirtualSerialPath v (files (w (channelExistMaxTries v - 1))) (serialChannelName v) = Inl e
          \<and> ((\<forall>j. 0 \<le> j \<and> j < channelExistMaxTries v \<longrightarrow>
                  os_Stat (files (w j)) (vSockDevPath v) \<noteq> None) \<longrightarrow>
               logged (newChannel v w) = [LogError e ''Serial port not found''])
          \<and> (\<forall>k. 0 \<le> k \<and> k < channelExistMaxTries v \<and>
                  os_Stat (files (w k)) (vSockDevPath v) = None \<and>
                  (\<forall>j. k < j \<and> j < channelExistMaxTries v \<longrightarrow>
                     os_Stat (files (w j)) (vSockDevPath v) \<noteq> None) \<longrightarrow>
               logged (newChannel v w) =
                 LogError e ''Serial port not found''
                 # log_if (snd (isAFVSockSupported (vsock (w k)))) ''VSock not found''))"
proof -
  let ?s0 = "\<lparr>serialErr = None, vsockErr = None, sleeps = []\<rparr>"
  let ?N = "channelExistMaxTries v"
  let ?r = "channel_loop v w 0 ?s0"
  note ex = channel_loop_exhausted [OF fails refl, of ?s0]
  from ex have none: "fst ?r = None" by simp
  note nc = newChannel_exhausted [OF none]
  from fails tries have "attempt_fails v (w (?N - 1))" by simp
  then obtain e
    where e: "findVirtualSerialPath v (files (w (?N - 1))) (serialChannelName v) = Inl e"
    by (auto simp: attempt_fails_def serial_missing_def isl_def)
  with ex tries have se: "serialErr (snd ?r) = Some e" by simp
  have l1: "logged (newChannel v w) = [LogError e ''Serial port not found'']"
    if "\<forall>j. 0 \<le> j \<and> j < ?N \<longrightarrow> os_Stat (files (w j)) (vSockDevPath v) \<noteq> None"
  proof -
    from ex that have "vsockErr (snd ?r) = None" by simp
    with se show ?thesis by (simp add: nc log_if_def)
  qed
  have l2: "logged (newChannel v w) =
              LogError e ''Serial port not found''
              # log_if (snd (isAFVSockSupported (vsock (w k)))) ''VSock not found''"
    if "0 \<le> k \<and> k < ?N \<and> os_Stat (files (w k)) (vSockDevPath v) = None \<and>
        (\<forall>j. k < j \<and> j < ?N \<longrightarrow> os_Stat (files (w j)) (vSockDevPath v) \<noteq> None)" for k
  proof -
    from ex that have "vsockErr (snd ?r) = snd (isAFVSockSupported (vsock (w k)))" by blast
    with se show ?thesis by (simp add: nc log_if_def)
  qed
  from nc e l1 l2 show ?thesis by auto
qed

theorem newChannel_not_found_witness:
  "returned (newChannel sysfs_vars (\<lambda>i. out_of_files_system))
     = Inl (ErrorString ''Neither vsocks nor serial ports were found'')
   \<and> logged (newChannel sysfs_vars (\<lambda>i. out_of_files_system))
     = [LogError (OsError (SyscallError ''readdirent'' EACCES)) ''Serial port not found'',
        LogError (Errno EMFILE) ''VSock not found'']
   \<and> logged (newChannel sysfs_vars (\<lambda>i. no_root_system))
     = [LogError (OsError (PathError ''open'' ''/sys/class/virtio-ports'' ENOENT))
          ''Serial port not found'']"
proof -
  have "logged (newChannel sysfs_vars (\<lambda>i. out_of_files_system))
     = [LogError (OsError (SyscallError ''readdirent'' EACCES)) ''Serial port not found'',
        LogError (Errno EMFILE) ''VSock not found'']"
    using newChannel_not_found [of sysfs_vars "\<lambda>i. out_of_files_system"]
    by (auto simp: log_if_def dest!: spec [of _ 199])
  moreover have "logged (newChannel sysfs_vars (\<lambda>i. no_root_system))
     = [LogError (OsError (PathError ''open'' ''/sys/class/virtio-ports'' ENOENT))
          ''Serial port not found'']"
    using newChannel_not_found [of sysfs_vars "\<lambda>i. no_root_system"]
    by simp
  moreover have "returned (newChannel sysfs_vars (\<lambda>i. out_of_files_system))
     = Inl (ErrorString ''Neither vsocks nor serial ports were found'')"
    using newChannel_not_found [of sysfs_vars "\<lambda>i. out_of_files_system"]
    by simp
  ultimately show ?thesis by simp
qed

subsection \<open>The serial channel\<close>

lemma wait_loop_hangups:
  "\<forall>h \<in> set hups. hangup_only h \<Longrightarrow>
     wait_loop d (map (\<lambda>h. Inr [h]) hups @ answers) = wait_loop d answers"
  by (induction hups) (simp_all add: hangup_only_def)

text \<open>
  Claim C3 fails as it is stated. \<^verbatim>\<open>wait\<close> tests the writable bit before the error bit:
  an event that reports the error condition together with the writable one, after a
  hangup, makes \<^verbatim>\<open>wait\<close> return success.
\<close>

theorem serialChannel_wait_writable_error:
  "Events writable_error_event AND EPOLLERR \<noteq> 0
   \<and> serialChannel_wait (epoll_answers [Inr [hangup_event], Inr [writable_error_event]])
        opened_channel = Returns None"
  by (simp add: serialChannel_wait_def epoll_answers_def)

text \<open>
  Claim C3, amended. Once the descriptor is registered, a sequence of hangup-only events
  followed by an event of the descriptor decides \<^verbatim>\<open>wait\<close>: it returns success when
  that event is writable, and it fails with \<open>serial port IO failure\<close> when that event
  reports the error condition and is not writable.
\<close>

theorem serialChannel_wait_events:
  assumes "File_Fd (serialConn c) = d" and "d \<noteq> 0"
    and "EpollCreate1 k = Inr epfd" and "EpollCtl_ADD k = None"
    and "EpollWait k = map (\<lambda>h. Inr [h]) hups @ Inr [ev] # rest"
    and "\<forall>h \<in> set hups. hangup_only h"
    and "Fd ev = ucast d"
  shows "(Events ev AND EPOLLOUT \<noteq> 0 \<longrightarrow> serialChannel_wait k c = Returns None)
    \<and> (Events ev AND EPOLLOUT = 0 \<and> Events ev AND EPOLLERR \<noteq> 0 \<longrightarrow>
         serialChannel_wait k c = Returns (Some (ErrorString ''serial port IO failure'')))"
proof -
  from assms(1-5) have "serialChannel_wait k c = wait_loop d (map (\<lambda>h. Inr [h]) hups @ Inr [ev] # rest)"
    by (simp add: serialChannel_wait_def)
  also from assms(6) have "\<dots> = wait_loop d (Inr [ev] # rest)"
    by (rule wait_loop_hangups)
  finally show ?thesis
    using assms(7) by simp
qed

theorem serialChannel_wait_events_witness:
  "serialChannel_wait (epoll_answers [Inr [hangup_event], Inr [hangup_event], Inr [writable_event]])
      opened_channel = Returns None
   \<and> serialChannel_wait (epoll_answers [Inr [hangup_event], Inr [error_event], Inr [writable_event]])
      opened_channel = Returns (Some (ErrorString ''serial port IO failure''))"
proof
  show "serialChannel_wait (epoll_answers [Inr [hangup_event], Inr [hangup_event], Inr [writable_event]])
      opened_channel = Returns None"
    using serialChannel_wait_events
      [of opened_channel 5 "epoll_answers [Inr [hangup_event], Inr [hangup_event], Inr [writable_event]]"
        6 "[hangup_event, hangup_event]" writable_event "[]"]
    by (simp add: epoll_answers_def hangup_only_def)
  show "serialChannel_wait (epoll_answers [Inr [hangup_event], Inr [error_event], Inr [writable_event]])
      opened_channel = Returns (Some (ErrorString ''serial port IO failure''))"
    using serialChannel_wait_events
      [of opened_channel 5 "epoll_answers [Inr [hangup_event], Inr [error_event], Inr [writable_event]]"
        6 "[hangup_event]" error_event "[Inr [writable_event]]"]
    by (simp add: epoll_answers_def hangup_only_def)
qed

text \<open>
  Claim C1. With a session that never closes, \<^verbatim>\<open>teardown\<close> returns the timeout error
  when the close timeout of five seconds has passed, and it returns it before reaching
  \<^verbatim>\<open>c.serialConn.Close()\<close>: the file of the channel is still open afterwards. When the
  session closes in time, the same \<^verbatim>\<open>teardown\<close> closes the file.
\<close>

theorem serialChannel_teardown_timeout_leaves_open:
  "serialChannel_teardown sysfs_vars close_succeeds serving_channel
     = \<lparr>teardown_err = Some (ErrorString ''timeout waiting for yamux channel to close''),
        teardown_chan = serving_channel,
        teardown_time = 5000000000\<rparr>
   \<and> serialConn serving_channel = Some \<lparr>file_name = ''/dev/A'', sysfd = 5, is_closed = False\<rparr>
   \<and> serialChannel_teardown sysfs_vars close_succeeds (serving_channel\<lparr>waitCh := Some (ClosesAfter 1000)\<rparr>)
     = \<lparr>teardown_err = None,
        teardown_chan =
          \<lparr>serialPath = ''/dev/A'',
           serialConn = Some \<lparr>file_name = ''/dev/A'', sysfd = 5, is_closed = True\<rparr>,
           waitCh = Some (ClosesAfter 1000)\<rparr>,
        teardown_time = 1000\<rparr>"
  by (simp add: serialChannel_teardown_def select_close_def close_succeeds_def serving_channel_def
      opened_channel_def File_Close_def)

end
